theory Spec2Isabelle
  imports Complex_Main "HOL-Library.Sublist" "HOL-Library.Multiset" "HOL-Library.Log_Nat"
    "HOL-Library.Word"
begin

section \<open>Data model of shot\_value.py\<close>

text \<open>
  The program works on pandas tables. A table is modelled as the list of its rows in
  table order, a row as a record of its columns, and a missing cell (NaN) as \<open>None\<close>.
  The seven columns that \<open>clean_data\<close> keeps form the record \<open>row\<close>, in the order
  of the column list of \<open>clean_data\<close>, which is the order the positional reads
  \<open>iloc[i, k]\<close> of \<open>calc_rebs\<close> rely on: 0 Shooter, 1 ShotType, 2 ShotOutcome,
  3 ShotDist, 4 Rebounder, 5 ReboundType, 6 SecLeft. The raw table read by \<open>calc_ppp\<close>
  has these columns and the further ones of \<open>raw_row\<close>.
  Distances are exact rationals (the column is a float column holding whole feet).
  The columns have the types they have in a season file and in every table cut from
  one: the text columns are object columns, to which the \<open>.str\<close> accessor applies
  whatever the rows that are left, and the number columns are numeric. The two score
  columns, filled on every row of a season file, are int64 columns: a score is a
  64-bit word, read as a signed number by \<open>sint\<close>.
\<close>

datatype py_error = IndexError | TypeError | ZeroDivisionError

record row =
  Shooter :: "string option"
  ShotType :: "string option"
  ShotOutcome :: "string option"
  ShotDist :: "rat option"
  Rebounder :: "string option"
  ReboundType :: "string option"
  SecLeft :: "int option"

record raw_row = row +
  TurnoverType :: "string option"
  FreeThrowNum :: "string option"
  FreeThrowOutcome :: "string option"
  AwayPlay :: "string option"
  AwayScore :: "64 word"
  HomeScore :: "64 word"

text \<open>
  The seven keys of the dictionaries \<open>shots\<close> and \<open>rebs\<close>, in insertion order. The
  constructors carry the names of the seven selections of \<open>calc_shots\<close>; \<open>label\<close>
  gives the dictionary key.
\<close>

datatype category =
    two_pt_zero_to_five_ft
  | two_pt_six_to_ten_ft
  | two_pt_eleven_to_fifteen_ft
  | two_pt_fifteen_plus_ft
  | three_pt_twenty_five_or_less_ft
  | three_pt_twenty_six_to_thirty_ft
  | three_pt_thirty_plus_ft

fun label :: "category \<Rightarrow> string" where
  "label two_pt_zero_to_five_ft = ''2-pt 0-5 ft''"
| "label two_pt_six_to_ten_ft = ''2-pt 6-10 ft''"
| "label two_pt_eleven_to_fifteen_ft = ''2-pt 11-15 ft''"
| "label two_pt_fifteen_plus_ft = ''2-pt >15 ft''"
| "label three_pt_twenty_five_or_less_ft = ''3-pt <26 ft''"
| "label three_pt_twenty_six_to_thirty_ft = ''3-pt 26-30 ft''"
| "label three_pt_thirty_plus_ft = ''3-pt >30 ft''"

definition all_categories :: "category list" where
  "all_categories =
     [two_pt_zero_to_five_ft, two_pt_six_to_ten_ft, two_pt_eleven_to_fifteen_ft,
      two_pt_fifteen_plus_ft, three_pt_twenty_five_or_less_ft,
      three_pt_twenty_six_to_thirty_ft, three_pt_thirty_plus_ft]"

subsection \<open>Comparisons and string search on cells that may be missing\<close>

text \<open>
  A comparison of a missing number with a constant is false, whichever way it points.
\<close>

definition nan_le :: "rat option \<Rightarrow> rat \<Rightarrow> bool" where
  "nan_le x k = (case x of None \<Rightarrow> False | Some d \<Rightarrow> d \<le> k)"

definition nan_gt :: "rat option \<Rightarrow> rat \<Rightarrow> bool" where
  "nan_gt x k = (case x of None \<Rightarrow> False | Some d \<Rightarrow> k < d)"

text \<open>
  \<open>str_in pat s\<close> is Python's \<open>pat in s\<close> on two strings: \<open>pat\<close> occurs in
  \<open>s\<close> as a contiguous run of characters.
\<close>

fun str_in :: "string \<Rightarrow> string \<Rightarrow> bool" where
  "str_in pat [] = (pat = [])"
| "str_in pat (c # cs) = (prefix pat (c # cs) \<or> str_in pat cs)"

text \<open>
  \<open>str_contains search pat cell\<close> is one element of \<open>column.str.contains(pat)\<close>
  as the program uses it: with \<open>na=False\<close> in \<open>clean_data\<close>, and combined by
  \<open>&\<close> with a boolean mask in \<open>calc_shots\<close>, where a missing element counts as
  false as well. pandas compiles \<open>pat\<close> as a regular expression and searches the cell
  for it; \<open>search\<close> stands for that search. For the two fixed patterns of
  \<open>calc_shots\<close>, which hold no regular-expression operator, it is the literal search
  \<open>str_in\<close>. In \<open>clean_data\<close> the pattern is the caller's team token, and the search
  is \<open>re_search\<close> below.
\<close>

definition str_contains :: "(string \<Rightarrow> string \<Rightarrow> bool) \<Rightarrow> string \<Rightarrow> string option \<Rightarrow> bool" where
  "str_contains search pat cell = (case cell of None \<Rightarrow> False | Some s \<Rightarrow> search pat s)"

section \<open>calc\_shots\<close>

text \<open>
  The seven boolean masks of \<open>calc_shots\<close>, one per selection, as written there.
\<close>

fun shot_mask :: "category \<Rightarrow> row \<Rightarrow> bool" where
  "shot_mask two_pt_zero_to_five_ft r = nan_le (ShotDist r) 5"
| "shot_mask two_pt_six_to_ten_ft r = (nan_gt (ShotDist r) 5 \<and> nan_le (ShotDist r) 10)"
| "shot_mask two_pt_eleven_to_fifteen_ft r = (nan_gt (ShotDist r) 10 \<and> nan_le (ShotDist r) 15)"
| "shot_mask two_pt_fifteen_plus_ft r =
     (str_contains str_in ''2-pt'' (ShotType r) \<and> nan_gt (ShotDist r) 15)"
| "shot_mask three_pt_twenty_five_or_less_ft r =
     (str_contains str_in ''3-pt'' (ShotType r) \<and> nan_le (ShotDist r) 25)"
| "shot_mask three_pt_twenty_six_to_thirty_ft r =
     (nan_gt (ShotDist r) 25 \<and> nan_le (ShotDist r) 30)"
| "shot_mask three_pt_thirty_plus_ft r = nan_gt (ShotDist r) 30"

text \<open>
  One entry of the dictionary \<open>shots\<close>: index 0 holds the number of selected rows
  (attempts), index 1 the number of selected rows whose outcome is \<open>make\<close>.
\<close>

definition is_make :: "row \<Rightarrow> bool" where
  "is_make r = (ShotOutcome r = Some ''make'')"

definition tally :: "category \<Rightarrow> row list \<Rightarrow> nat \<times> nat" where
  "tally c year =
     (let sel = filter (shot_mask c) year
      in (length sel, length (filter is_make sel)))"

type_synonym shots = "category \<Rightarrow> nat \<times> nat"

definition calc_shots_year :: "row list \<Rightarrow> shots" where
  "calc_shots_year year = (\<lambda>c. tally c year)"

definition calc_shots :: "row list list \<Rightarrow> shots list" where
  "calc_shots data = map calc_shots_year data"

definition attempts :: "shots \<Rightarrow> category \<Rightarrow> nat" where
  "attempts s c = fst (s c)"

definition makes :: "shots \<Rightarrow> category \<Rightarrow> nat" where
  "makes s c = snd (s c)"

section \<open>calc\_rebs\<close>

text \<open>
  The \<open>if\<close>/\<open>elif\<close> chain of \<open>calc_rebs\<close> that picks the key to credit, in the
  order of the source. A missing distance fails every comparison. The test
  \<open>'2-pt' in shot_type\<close> is reached only after the first three comparisons failed; on
  a missing shot type (a float NaN) it raises \<open>TypeError\<close>.
\<close>

definition reb_category :: "string option \<Rightarrow> rat option \<Rightarrow> py_error + category" where
  "reb_category shot_type shot_dist =
     (if nan_le shot_dist 5 then Inr two_pt_zero_to_five_ft
      else if nan_le shot_dist 10 then Inr two_pt_six_to_ten_ft
      else if nan_le shot_dist 15 then Inr two_pt_eleven_to_fifteen_ft
      else (case shot_type of
              None \<Rightarrow> Inl TypeError
            | Some t \<Rightarrow>
                if str_in ''2-pt'' t then Inr two_pt_fifteen_plus_ft
                else if nan_le shot_dist 25 then Inr three_pt_twenty_five_or_less_ft
                else if nan_le shot_dist 30 then Inr three_pt_twenty_six_to_thirty_ft
                else Inr three_pt_thirty_plus_ft))"

text \<open>
  \<open>off_reb\<close> of the source, read from the row after the missed shot: 1 when its
  rebound type is \<open>offensive\<close> and its seconds left are not 0 (a missing value is
  not equal to 0), else 0.
\<close>

definition off_reb :: "row \<Rightarrow> nat" where
  "off_reb nxt = (if ReboundType nxt = Some ''offensive'' \<and> SecLeft nxt \<noteq> Some 0 then 1 else 0)"

type_synonym rebs = "category \<Rightarrow> nat"

text \<open>
  The loop \<open>for i in range(len(year))\<close>: \<open>scan_rebs rows rebs\<close> runs it from a
  position \<open>i\<close> on, \<open>rows\<close> being the rows from \<open>i\<close> to the end and \<open>rebs\<close> the
  dictionary so far. On a missed shot the source first reads row \<open>i + 1\<close>; when row
  \<open>i\<close> is the last one, \<open>iloc\<close> raises \<open>IndexError\<close>. The key is chosen afterwards.
\<close>

fun scan_rebs :: "row list \<Rightarrow> rebs \<Rightarrow> py_error + rebs" where
  "scan_rebs [] rebs = Inr rebs"
| "scan_rebs (r # rest) rebs =
     (if ShotOutcome r = Some ''miss'' then
        (case rest of
           [] \<Rightarrow> Inl IndexError
         | nxt # _ \<Rightarrow>
             (case reb_category (ShotType r) (ShotDist r) of
                Inl e \<Rightarrow> Inl e
              | Inr c \<Rightarrow> scan_rebs rest (rebs(c := rebs c + off_reb nxt))))
      else scan_rebs rest rebs)"

definition calc_rebs_year :: "row list \<Rightarrow> py_error + rebs" where
  "calc_rebs_year year = scan_rebs year (\<lambda>c. 0)"

fun calc_rebs :: "row list list \<Rightarrow> py_error + rebs list" where
  "calc_rebs [] = Inr []"
| "calc_rebs (year # data) =
     (case calc_rebs_year year of
        Inl e \<Rightarrow> Inl e
      | Inr rebs \<Rightarrow> (case calc_rebs data of Inl e \<Rightarrow> Inl e | Inr out \<Rightarrow> Inr (rebs # out)))"

section \<open>clean\_data\<close>

text \<open>
  \<open>str.contains(team, na=False)\<close> compiles the team token as a regular expression
  and searches each cell for a match. The characters of \<open>metachars\<close> are the
  operators of a regular expression; every other character matches itself, and the
  dot matches any character but the newline. \<open>dot_search\<close> is the search for a token
  made of such characters and dots. A token that holds another operator is left to
  \<open>engine\<close>, a parameter that stands for the rest of the regular-expression engine.
\<close>

definition metachars :: "string" where
  "metachars = ''.^$*+?{}[]|()'' @ [CHR 0x5C]"

definition literal_pattern :: "string \<Rightarrow> bool" where
  "literal_pattern pat = list_all (\<lambda>c. \<not> List.member metachars c) pat"

definition dot_pattern :: "string \<Rightarrow> bool" where
  "dot_pattern pat = list_all (\<lambda>c. c = CHR ''.'' \<or> \<not> List.member metachars c) pat"

fun match_here :: "string \<Rightarrow> string \<Rightarrow> bool" where
  "match_here [] s = True"
| "match_here (p # ps) [] = False"
| "match_here (p # ps) (c # cs) =
     ((if p = CHR ''.'' then c \<noteq> CHR 0x0A else p = c) \<and> match_here ps cs)"

fun dot_search :: "string \<Rightarrow> string \<Rightarrow> bool" where
  "dot_search pat [] = match_here pat []"
| "dot_search pat (c # cs) = (match_here pat (c # cs) \<or> dot_search pat cs)"

definition re_search :: "(string \<Rightarrow> string \<Rightarrow> bool) \<Rightarrow> string \<Rightarrow> string \<Rightarrow> bool" where
  "re_search engine pat s = (if dot_pattern pat then dot_search pat s else engine pat s)"

text \<open>
  \<open>populated r\<close> counts the cells of a row that are not missing; \<open>dropna(thresh=2)\<close>
  keeps the rows with at least two of them. The column selection is the truncation of
  a raw row to its first seven columns. The default value \<open>'ALL'\<close> of \<open>team\<close> is
  passed explicitly.
\<close>

definition populated :: "row \<Rightarrow> nat" where
  "populated r =
     length (filter (\<lambda>b. b)
       [Shooter r \<noteq> None, ShotType r \<noteq> None, ShotOutcome r \<noteq> None, ShotDist r \<noteq> None,
        Rebounder r \<noteq> None, ReboundType r \<noteq> None, SecLeft r \<noteq> None])"

definition clean_data :: "(string \<Rightarrow> string \<Rightarrow> bool) \<Rightarrow> raw_row list \<Rightarrow> string \<Rightarrow> row list" where
  "clean_data engine data team =
     (let filtered = map row.truncate data;
          filtered = filter (\<lambda>r. 2 \<le> populated r) filtered
      in if team \<noteq> ''ALL''
         then filter (\<lambda>r. str_contains (re_search engine) team (Shooter r)
                          \<or> str_contains (re_search engine) team (Rebounder r)) filtered
         else filtered)"

section \<open>Floating-point results\<close>

text \<open>
  A float (binary64) is modelled as the rational number it denotes, or as one of the
  three special values. \<open>rnd53\<close> rounds a rational to the nearest number with 53
  significant bits, ties to the even significand: \<open>ilog2 a\<close> is the exponent \<open>e\<close>
  with \<open>2^e \<le> a < 2^(e+1)\<close>, and the result is a multiple of \<open>2^(e-52)\<close>. This is
  the rounding of binary64 wherever the exponent stays within its range.
\<close>

datatype np_float = Fin rat | PInf | NInf | NaN

definition round_half_even :: "rat \<Rightarrow> int" where
  "round_half_even x =
     (let f = \<lfloor>x\<rfloor>; d = x - of_int f
      in if d < 1 / 2 then f else if 1 / 2 < d then f + 1 else if even f then f else f + 1)"

definition ilog2 :: "rat \<Rightarrow> int" where
  "ilog2 a =
     (let k = bitlen (fst (quotient_of a)) - bitlen (snd (quotient_of a))
      in if 2 powi k \<le> a then k else k - 1)"

definition rnd53 :: "rat \<Rightarrow> rat" where
  "rnd53 q =
     (if q = 0 then 0
      else let ulp = 2 powi (ilog2 \<bar>q\<bar> - 52)
           in sgn q * of_int (round_half_even (\<bar>q\<bar> / ulp)) * ulp)"

text \<open>
  The quotients of the program are numpy divisions of int64 values, which raise
  nothing: a division by zero gives an infinity or NaN (with a warning on the error
  stream). Otherwise both operands are converted to binary64 and divided. The operands
  are whole numbers below \<open>2^63\<close> in magnitude, so the quotient lies between
  \<open>2^-63\<close> and \<open>2^63\<close> in magnitude or is 0: it neither overflows nor underflows,
  and \<open>rnd53\<close> is its rounding.
\<close>

definition np_true_divide :: "int \<Rightarrow> int \<Rightarrow> np_float" where
  "np_true_divide a b =
     (if b = 0 then (if 0 < a then PInf else if a < 0 then NInf else NaN)
      else Fin (rnd53 (rnd53 (of_int a) / rnd53 (of_int b))))"

text \<open>
  Python's \<open>/\<close> looks at its left operand. On a Python \<open>int\<close> it raises
  \<open>ZeroDivisionError\<close> for a zero divisor and otherwise returns the rounded quotient
  of the two integers (this branch is for quotients within the range of a float). On a
  numpy int64 scalar it is the numpy division.
\<close>

datatype py_num = PyInt int | NpInt64 "64 word"

definition truediv :: "py_num \<Rightarrow> int \<Rightarrow> py_error + np_float" where
  "truediv x b =
     (case x of
        PyInt a \<Rightarrow>
          if b = 0 then Inl ZeroDivisionError else Inr (Fin (rnd53 (of_int a / of_int b)))
      | NpInt64 w \<Rightarrow> Inr (np_true_divide (sint w) b))"

text \<open>
  Products, sums and comparisons follow IEEE 754 on the special values; on finite
  values the product and the sum are kept exact.
\<close>

fun np_mul :: "np_float \<Rightarrow> np_float \<Rightarrow> np_float" where
  "np_mul NaN y = NaN"
| "np_mul x NaN = NaN"
| "np_mul (Fin a) (Fin b) = Fin (a * b)"
| "np_mul (Fin a) PInf = (if 0 < a then PInf else if a < 0 then NInf else NaN)"
| "np_mul (Fin a) NInf = (if 0 < a then NInf else if a < 0 then PInf else NaN)"
| "np_mul PInf (Fin b) = (if 0 < b then PInf else if b < 0 then NInf else NaN)"
| "np_mul NInf (Fin b) = (if 0 < b then NInf else if b < 0 then PInf else NaN)"
| "np_mul PInf PInf = PInf"
| "np_mul PInf NInf = NInf"
| "np_mul NInf PInf = NInf"
| "np_mul NInf NInf = PInf"

fun np_add :: "np_float \<Rightarrow> np_float \<Rightarrow> np_float" where
  "np_add NaN y = NaN"
| "np_add x NaN = NaN"
| "np_add (Fin a) (Fin b) = Fin (a + b)"
| "np_add PInf NInf = NaN"
| "np_add NInf PInf = NaN"
| "np_add PInf y = PInf"
| "np_add x PInf = PInf"
| "np_add NInf y = NInf"
| "np_add x NInf = NInf"


section \<open>calc\_ppp\<close>

text \<open>
  \<open>col_sum\<close> is \<open>Series.sum()\<close> on an int64 column: a numpy int64 scalar, the sum
  of the cells modulo \<open>2^64\<close>. The assignment \<open>pts = 0\<close> is overwritten by the first
  sum, and \<open>+=\<close> adds two int64 scalars, again modulo \<open>2^64\<close>; so \<open>pts\<close> is an
  int64 scalar when it is divided. The counts are Python integers. The boolean columns
  of \<open>calc_ppp\<close> keep their names; \<open>!= 0\<close> holds on a missing value.
\<close>

definition col_sum :: "64 word list \<Rightarrow> 64 word" where
  "col_sum xs = sum_list xs"

definition pts :: "raw_row list \<Rightarrow> 64 word" where
  "pts data =
     (let pts_data = filter (\<lambda>r. AwayPlay r = Some ''End of Game'') data
      in col_sum (map AwayScore pts_data) + col_sum (map HomeScore pts_data))"

definition shot :: "raw_row \<Rightarrow> bool" where
  "shot r = (Shooter r \<noteq> None)"

definition turnover :: "raw_row \<Rightarrow> bool" where
  "turnover r = (TurnoverType r \<noteq> None)"

definition ft_1_of_2 :: "raw_row \<Rightarrow> bool" where
  "ft_1_of_2 r = (FreeThrowNum r = Some ''1 of 2'')"

definition ft_1_of_3 :: "raw_row \<Rightarrow> bool" where
  "ft_1_of_3 r = (FreeThrowNum r = Some ''1 of 3'')"

definition ft_2_of_3 :: "raw_row \<Rightarrow> bool" where
  "ft_2_of_3 r = (FreeThrowNum r = Some ''2 of 3'')"

definition ft_miss :: "raw_row \<Rightarrow> bool" where
  "ft_miss r = (FreeThrowOutcome r = Some ''miss'')"

definition orb :: "raw_row \<Rightarrow> bool" where
  "orb r = (ReboundType r = Some ''offensive'')"

definition not_end_of_q :: "raw_row \<Rightarrow> bool" where
  "not_end_of_q r = (SecLeft r \<noteq> Some 0)"

definition poss_data :: "raw_row list \<Rightarrow> raw_row list" where
  "poss_data data = filter (\<lambda>r. shot r \<or> turnover r \<or> ft_1_of_2 r \<or> ft_1_of_3 r) data"

definition orbs_data :: "raw_row list \<Rightarrow> raw_row list" where
  "orbs_data data = filter (\<lambda>r. orb r \<and> not_end_of_q r) data"

definition ft_orbs_data :: "raw_row list \<Rightarrow> raw_row list" where
  "ft_orbs_data data = filter (\<lambda>r. ft_miss r \<and> (ft_1_of_2 r \<or> ft_1_of_3 r \<or> ft_2_of_3 r)) data"

definition total_orbs :: "raw_row list \<Rightarrow> int" where
  "total_orbs data = int (length (orbs_data data)) - int (length (ft_orbs_data data))"

definition total_poss :: "raw_row list \<Rightarrow> int" where
  "total_poss data = int (length (poss_data data)) - total_orbs data"

definition calc_ppp :: "raw_row list \<Rightarrow> py_error + np_float" where
  "calc_ppp data = truediv (NpInt64 (pts data)) (total_poss data)"

section \<open>calc\_exp\_pts and calc\_exp\_pts\_w\_orb\<close>

text \<open>
  The source reads the dictionaries into arrays in key order and writes the results
  under the seven keys by position; position \<open>k\<close> is the \<open>k\<close>-th key, so the value
  stored under a key is computed from the tallies of that key. The factor is 2 for the
  four \<open>2-pt\<close> keys and 3 for the three \<open>3-pt\<close> keys.
\<close>

fun point_value :: "category \<Rightarrow> rat" where
  "point_value two_pt_zero_to_five_ft = 2"
| "point_value two_pt_six_to_ten_ft = 2"
| "point_value two_pt_eleven_to_fifteen_ft = 2"
| "point_value two_pt_fifteen_plus_ft = 2"
| "point_value three_pt_twenty_five_or_less_ft = 3"
| "point_value three_pt_twenty_six_to_thirty_ft = 3"
| "point_value three_pt_thirty_plus_ft = 3"

definition make_percentages :: "shots \<Rightarrow> category \<Rightarrow> np_float" where
  "make_percentages year c = np_true_divide (int (makes year c)) (int (attempts year c))"

definition orb_percentages :: "shots \<Rightarrow> rebs \<Rightarrow> category \<Rightarrow> np_float" where
  "orb_percentages year rebs c = np_true_divide (int (rebs c)) (int (attempts year c))"

definition exp_pts_year :: "shots \<Rightarrow> category \<Rightarrow> np_float" where
  "exp_pts_year year = (\<lambda>c. np_mul (Fin (point_value c)) (make_percentages year c))"

definition calc_exp_pts :: "shots list \<Rightarrow> (category \<Rightarrow> np_float) list" where
  "calc_exp_pts shots = map exp_pts_year shots"

definition exp_pts_w_orb_year :: "shots \<Rightarrow> rebs \<Rightarrow> np_float \<Rightarrow> category \<Rightarrow> np_float" where
  "exp_pts_w_orb_year year rebs ppp =
     (\<lambda>c. np_add (np_mul (Fin (point_value c)) (make_percentages year c))
                 (np_mul (orb_percentages year rebs c) ppp))"

text \<open>
  The loop \<open>for i in range(len(shots))\<close> reads \<open>rebs[i]\<close> and \<open>ppp[i]\<close>; a list
  shorter than \<open>shots\<close> raises \<open>IndexError\<close>.
\<close>

fun calc_exp_pts_w_orb ::
  "shots list \<Rightarrow> rebs list \<Rightarrow> np_float list \<Rightarrow> py_error + (category \<Rightarrow> np_float) list" where
  "calc_exp_pts_w_orb [] rebs ppp = Inr []"
| "calc_exp_pts_w_orb (s # shots) (r # rebs) (p # ppp) =
     (case calc_exp_pts_w_orb shots rebs ppp of
        Inl e \<Rightarrow> Inl e
      | Inr out \<Rightarrow> Inr (exp_pts_w_orb_year s r p # out))"
| "calc_exp_pts_w_orb (s # shots) rebs ppp = Inl IndexError"

section \<open>Notions used in the statements\<close>

definition attempts_total :: "shots \<Rightarrow> nat" where
  "attempts_total s = sum_list (map (attempts s) all_categories)"

definition masks_of :: "row \<Rightarrow> category list" where
  "masks_of r = filter (\<lambda>c. shot_mask c r) all_categories"

definition is_miss :: "row \<Rightarrow> bool" where
  "is_miss r = (ShotOutcome r = Some ''miss'')"

text \<open>
  A shot event of the data model: the distance is present and the tag names the value
  of the shot.
\<close>

definition tagged_shot :: "row \<Rightarrow> bool" where
  "tagged_shot r =
     (ShotDist r \<noteq> None
      \<and> (str_contains str_in ''2-pt'' (ShotType r) \<or> str_contains str_in ''3-pt'' (ShotType r)))"

text \<open>
  Shots whose tag and distance agree with the court: a two-point shot from at most
  25 ft, a three-point shot from more than 15 ft. A row without shot has neither an
  outcome nor a distance.
\<close>

definition two_pt_shot :: "row \<Rightarrow> bool" where
  "two_pt_shot r =
     (str_contains str_in ''2-pt'' (ShotType r) \<and> \<not> str_contains str_in ''3-pt'' (ShotType r)
      \<and> nan_le (ShotDist r) 25)"

definition three_pt_shot :: "row \<Rightarrow> bool" where
  "three_pt_shot r =
     (str_contains str_in ''3-pt'' (ShotType r) \<and> \<not> str_contains str_in ''2-pt'' (ShotType r)
      \<and> nan_gt (ShotDist r) 15)"

definition binnable_shot :: "row \<Rightarrow> bool" where
  "binnable_shot r = (ShotOutcome r \<noteq> None \<and> (two_pt_shot r \<or> three_pt_shot r))"

definition no_shot :: "row \<Rightarrow> bool" where
  "no_shot r = (ShotOutcome r = None \<and> ShotDist r = None)"

text \<open>The count stored under a key by \<open>calc_rebs\<close>, when it returns.\<close>

definition credited :: "py_error + rebs \<Rightarrow> category \<Rightarrow> nat option" where
  "credited res c = (case res of Inl e \<Rightarrow> None | Inr rebs \<Rightarrow> Some (rebs c))"





subsection \<open>The possession count and the filter in the words of the specification\<close>

text \<open>
  The points of a table are the final home and away scores of its end-of-game rows,
  summed. The possession-ending rows are the shot rows, the turnover rows and the free
  throws labelled \<open>1 of 2\<close> or \<open>1 of 3\<close>. From their number is taken the number of
  offensive rebounds with seconds left, less the number of missed free throws that are
  not the last of their trip. \<open>int64 n\<close> is \<open>n\<close> as an int64 scalar holds it.
\<close>

fun spec_points :: "raw_row list \<Rightarrow> int" where
  "spec_points [] = 0"
| "spec_points (r # rs) =
     (if AwayPlay r = Some ''End of Game'' then sint (HomeScore r) + sint (AwayScore r) else 0)
     + spec_points rs"

fun count_rows :: "(raw_row \<Rightarrow> bool) \<Rightarrow> raw_row list \<Rightarrow> int" where
  "count_rows P [] = 0"
| "count_rows P (r # rs) = (if P r then 1 else 0) + count_rows P rs"

definition spec_possession_ending :: "raw_row \<Rightarrow> bool" where
  "spec_possession_ending r =
     (Shooter r \<noteq> None \<or> TurnoverType r \<noteq> None
      \<or> FreeThrowNum r = Some ''1 of 2'' \<or> FreeThrowNum r = Some ''1 of 3'')"

definition spec_live_off_rebound :: "raw_row \<Rightarrow> bool" where
  "spec_live_off_rebound r = (ReboundType r = Some ''offensive'' \<and> SecLeft r \<noteq> Some 0)"

definition spec_missed_ft_not_last :: "raw_row \<Rightarrow> bool" where
  "spec_missed_ft_not_last r =
     (FreeThrowOutcome r = Some ''miss''
      \<and> (FreeThrowNum r = Some ''1 of 2'' \<or> FreeThrowNum r = Some ''1 of 3''
         \<or> FreeThrowNum r = Some ''2 of 3''))"

definition spec_possessions :: "raw_row list \<Rightarrow> int" where
  "spec_possessions data =
     count_rows spec_possession_ending data
     - (count_rows spec_live_off_rebound data - count_rows spec_missed_ft_not_last data)"

definition int64 :: "int \<Rightarrow> int" where
  "int64 n = (n + 2 ^ 63) mod 2 ^ 64 - 2 ^ 63"

text \<open>The number of the seven fields of a row that are populated.\<close>

definition fields_populated :: "row \<Rightarrow> nat" where
  "fields_populated r =
     (if Shooter r = None then 0 else 1) + (if ShotType r = None then 0 else 1)
     + (if ShotOutcome r = None then 0 else 1) + (if ShotDist r = None then 0 else 1)
     + (if Rebounder r = None then 0 else 1) + (if ReboundType r = None then 0 else 1)
     + (if SecLeft r = None then 0 else 1)"

subsection \<open>Rows used as concrete inputs\<close>

definition shot_ev :: "string \<Rightarrow> string \<Rightarrow> rat option \<Rightarrow> row" where
  "shot_ev tag outcome d =
     \<lparr>Shooter = Some ''A. Player - PLAYER01'', ShotType = Some tag,
      ShotOutcome = Some outcome, ShotDist = d, Rebounder = None,
      ReboundType = None, SecLeft = Some 300\<rparr>"

definition reb_ev :: "string \<Rightarrow> int \<Rightarrow> row" where
  "reb_ev kind sec =
     \<lparr>Shooter = None, ShotType = None, ShotOutcome = None, ShotDist = None,
      Rebounder = Some ''B. Player - PLAYER02'', ReboundType = Some kind,
      SecLeft = Some sec\<rparr>"

definition blank :: raw_row where
  "blank =
     \<lparr>Shooter = None, ShotType = None, ShotOutcome = None, ShotDist = None,
      Rebounder = None, ReboundType = None, SecLeft = Some 300,
      TurnoverType = None, FreeThrowNum = None, FreeThrowOutcome = None,
      AwayPlay = None, AwayScore = 0, HomeScore = 0\<rparr>"

definition raw_shot :: "string \<Rightarrow> raw_row" where
  "raw_shot who =
     blank\<lparr>Shooter := Some who, ShotType := Some ''2-pt jump shot'',
           ShotOutcome := Some ''miss'', ShotDist := Some 12\<rparr>"

definition raw_turnover :: raw_row where
  "raw_turnover = blank\<lparr>TurnoverType := Some ''bad pass''\<rparr>"


definition raw_rebound :: "string \<Rightarrow> string \<Rightarrow> int \<Rightarrow> raw_row" where
  "raw_rebound who kind sec =
     blank\<lparr>Rebounder := Some who, ReboundType := Some kind, SecLeft := Some sec\<rparr>"

definition raw_end_of_game :: "64 word \<Rightarrow> 64 word \<Rightarrow> raw_row" where
  "raw_end_of_game away home =
     blank\<lparr>SecLeft := Some 0, AwayPlay := Some ''End of Game'', AwayScore := away,
           HomeScore := home\<rparr>"

section \<open>Properties of calc\_shots\<close>

lemma tally_Cons:
  "tally c (r # year) =
     (if shot_mask c r
      then (Suc (fst (tally c year)),
            (if is_make r then Suc (snd (tally c year)) else snd (tally c year)))
      else tally c year)"
  by (simp add: tally_def Let_def)

lemma tally_append:
  "tally c (xs @ ys) = (fst (tally c xs) + fst (tally c ys), snd (tally c xs) + snd (tally c ys))"
  by (simp add: tally_def Let_def)

lemma shot_mask_missing_dist: "ShotDist r = None \<Longrightarrow> \<not> shot_mask c r"
  by (cases c) (simp_all add: nan_le_def nan_gt_def)

lemma makes_le_attempts: "makes (calc_shots_year year) c \<le> attempts (calc_shots_year year) c"
  unfolding makes_def attempts_def calc_shots_year_def tally_def Let_def fst_conv snd_conv
  by (rule length_filter_le)

text \<open>
  C10. A row whose shot distance is missing is selected by none of the seven masks, so
  it adds nothing to the attempts or the makes of any category, whatever its outcome:
  the tallies of a table are those of the table without that row.
\<close>

theorem missing_distance_counted_nowhere:
  assumes "ShotDist r = None"
  shows "\<not> shot_mask c r \<and> calc_shots_year (xs @ r # ys) c = calc_shots_year (xs @ ys) c"
proof -
  have m: "\<not> shot_mask c r"
    using assms by (rule shot_mask_missing_dist)
  have "tally c (r # ys) = tally c ys"
    using m by (simp add: tally_Cons)
  then have "tally c (xs @ r # ys) = tally c (xs @ ys)"
    by (simp add: tally_append)
  then show ?thesis
    using m by (simp add: calc_shots_year_def)
qed

text \<open>
  At a made layup without distance, alone in its table: no attempt and no make under
  \<open>2-pt 0-5 ft\<close>.
\<close>

theorem missing_distance_counted_nowhere_witness:
  "ShotDist (shot_ev ''2-pt layup'' ''make'' None) = None
   \<and> \<not> shot_mask two_pt_zero_to_five_ft (shot_ev ''2-pt layup'' ''make'' None)
   \<and> calc_shots_year ([] @ shot_ev ''2-pt layup'' ''make'' None # []) two_pt_zero_to_five_ft = (0, 0)"
proof -
  have h: "ShotDist (shot_ev ''2-pt layup'' ''make'' None) = None"
    by (simp add: shot_ev_def)
  show ?thesis
    using h missing_distance_counted_nowhere [OF h, of two_pt_zero_to_five_ft "[]" "[]"]
    by (simp add: calc_shots_year_def tally_def)
qed

text \<open>
  C1, evaluated at a failing input. A missed shot tagged \<open>3-pt jump shot\<close> at 3 ft is
  selected by two masks: the one of \<open>2-pt 0-5 ft\<close>, which looks at the distance only,
  and the one of \<open>3-pt <26 ft\<close>. The table holding this one row has one attempt in
  each of the two categories. Likewise a \<open>2-pt\<close> shot at 28 ft is counted under
  \<open>2-pt >15 ft\<close> and under \<open>3-pt 26-30 ft\<close>.
\<close>

theorem shot_counted_in_two_categories:
  "masks_of (shot_ev ''3-pt jump shot'' ''miss'' (Some 3))
     = [two_pt_zero_to_five_ft, three_pt_twenty_five_or_less_ft]
   \<and> attempts (calc_shots_year [shot_ev ''3-pt jump shot'' ''miss'' (Some 3)])
        two_pt_zero_to_five_ft = 1
   \<and> attempts (calc_shots_year [shot_ev ''3-pt jump shot'' ''miss'' (Some 3)])
        three_pt_twenty_five_or_less_ft = 1
   \<and> masks_of (shot_ev ''2-pt jump shot'' ''miss'' (Some 28))
     = [two_pt_fifteen_plus_ft, three_pt_twenty_six_to_thirty_ft]"
  by (simp add: masks_of_def all_categories_def shot_ev_def nan_le_def nan_gt_def
      str_contains_def attempts_def calc_shots_year_def tally_def)

subsection \<open>The sum of the attempts\<close>

lemma attempts_total_Nil: "attempts_total (calc_shots_year []) = 0"
  by (simp add: attempts_total_def attempts_def calc_shots_year_def tally_def all_categories_def)

lemma attempts_total_Cons:
  "attempts_total (calc_shots_year (r # year))
     = length (masks_of r) + attempts_total (calc_shots_year year)"
  by (simp add: attempts_total_def attempts_def calc_shots_year_def tally_Cons
      all_categories_def masks_of_def)

lemma masks_of_no_shot: "no_shot r \<Longrightarrow> masks_of r = []"
  by (simp add: masks_of_def no_shot_def shot_mask_missing_dist)

lemma masks_of_two_pt: "two_pt_shot r \<Longrightarrow> length (masks_of r) = 1"
  by (cases "ShotDist r")
     (auto simp: masks_of_def two_pt_shot_def all_categories_def nan_le_def nan_gt_def)

lemma masks_of_three_pt: "three_pt_shot r \<Longrightarrow> length (masks_of r) = 1"
  by (cases "ShotDist r")
     (auto simp: masks_of_def three_pt_shot_def all_categories_def nan_le_def nan_gt_def)

text \<open>
  C6, as stated, fails at three tables: a made layup without distance is a row with an
  outcome and no attempt; a three-point shot at 3 ft is one row and two attempts; a
  made layup followed by a row with a distance and no outcome gives two attempts for
  one outcome.
\<close>

theorem attempts_sum_counterexample:
  "attempts_total (calc_shots_year [shot_ev ''2-pt layup'' ''make'' None]) = 0
   \<and> length (filter (\<lambda>r. ShotOutcome r \<noteq> None) [shot_ev ''2-pt layup'' ''make'' None]) = 1
   \<and> attempts_total (calc_shots_year [shot_ev ''3-pt jump shot'' ''miss'' (Some 3)]) = 2
   \<and> length (filter (\<lambda>r. ShotOutcome r \<noteq> None) [shot_ev ''3-pt jump shot'' ''miss'' (Some 3)]) = 1
   \<and> attempts_total (calc_shots_year
        [shot_ev ''2-pt layup'' ''make'' (Some 3), (reb_ev ''defensive'' 40)\<lparr>ShotDist := Some 12\<rparr>]) = 2
   \<and> length (filter (\<lambda>r. ShotOutcome r \<noteq> None)
        [shot_ev ''2-pt layup'' ''make'' (Some 3), (reb_ev ''defensive'' 40)\<lparr>ShotDist := Some 12\<rparr>]) = 1"
  by (simp add: attempts_total_def attempts_def calc_shots_year_def tally_def all_categories_def
      shot_ev_def reb_ev_def nan_le_def nan_gt_def str_contains_def)

text \<open>
  C6, amended. In a table whose rows are either without shot (no outcome, no distance)
  or shots with an outcome whose tag and distance agree (a \<open>2-pt\<close> tag that is not
  also \<open>3-pt\<close> at 25 ft or less, a \<open>3-pt\<close> tag that is not also \<open>2-pt\<close> at more
  than 15 ft), the attempts of the seven categories add up to the number of rows with
  an outcome.
\<close>

theorem attempts_sum_on_binnable_rows:
  assumes "list_all (\<lambda>r. no_shot r \<or> binnable_shot r) year"
  shows "attempts_total (calc_shots_year year)
           = length (filter (\<lambda>r. ShotOutcome r \<noteq> None) year)"
  using assms
proof (induction year)
  case Nil
  show ?case by (simp add: attempts_total_Nil)
next
  case (Cons r year)
  then have ih: "attempts_total (calc_shots_year year)
                   = length (filter (\<lambda>r. ShotOutcome r \<noteq> None) year)"
    by simp
  from Cons.prems have "no_shot r \<or> binnable_shot r" by simp
  then show ?case
  proof
    assume n: "no_shot r"
    then have "ShotOutcome r = None" by (simp add: no_shot_def)
    then show ?thesis
      using n ih by (simp add: attempts_total_Cons masks_of_no_shot)
  next
    assume b: "binnable_shot r"
    then have "length (masks_of r) = 1"
      using masks_of_two_pt masks_of_three_pt by (auto simp: binnable_shot_def)
    moreover from b have "ShotOutcome r \<noteq> None" by (simp add: binnable_shot_def)
    ultimately show ?thesis
      using ih by (simp add: attempts_total_Cons)
  qed
qed

text \<open>A made layup, a defensive rebound and a missed three from 24 ft: two attempts.\<close>

theorem attempts_sum_on_binnable_rows_witness:
  "list_all (\<lambda>r. no_shot r \<or> binnable_shot r)
     [shot_ev ''2-pt layup'' ''make'' (Some 3), reb_ev ''defensive'' 100,
      shot_ev ''3-pt jump shot'' ''miss'' (Some 24)]
   \<and> attempts_total (calc_shots_year
        [shot_ev ''2-pt layup'' ''make'' (Some 3), reb_ev ''defensive'' 100,
         shot_ev ''3-pt jump shot'' ''miss'' (Some 24)]) = 2"
proof -
  have h: "list_all (\<lambda>r. no_shot r \<or> binnable_shot r)
     [shot_ev ''2-pt layup'' ''make'' (Some 3), reb_ev ''defensive'' 100,
      shot_ev ''3-pt jump shot'' ''miss'' (Some 24)]"
    by (simp add: no_shot_def binnable_shot_def two_pt_shot_def three_pt_shot_def
        shot_ev_def reb_ev_def str_contains_def nan_le_def nan_gt_def)
  show ?thesis
    using h attempts_sum_on_binnable_rows [OF h] by (simp add: shot_ev_def reb_ev_def)
qed

section \<open>Properties of calc\_rebs\<close>

lemma scan_rebs_last_miss:
  "ShotOutcome r = Some ''miss'' \<Longrightarrow> isl (scan_rebs (xs @ [r]) acc)"
  by (induction xs arbitrary: acc) (auto split: list.splits sum.splits)

text \<open>
  C2, on the code. When the last row of the table is a missed shot, \<open>calc_rebs\<close> does
  not return a tally: the scan ends in an error, whatever precedes the last row. (The
  error is the \<open>IndexError\<close> of the read past the end, unless an earlier row has
  already raised.)
\<close>

theorem last_row_miss_raises:
  assumes "ShotOutcome r = Some ''miss''"
  shows "isl (calc_rebs_year (xs @ [r])) \<and> isl (calc_rebs ((xs @ [r]) # data))"
proof -
  have "isl (calc_rebs_year (xs @ [r]))"
    using assms by (simp add: calc_rebs_year_def scan_rebs_last_miss)
  then show ?thesis
    by (auto split: sum.splits)
qed

text \<open>A table of one missed layup: the scan raises \<open>IndexError\<close>.\<close>

theorem last_row_miss_raises_witness:
  "ShotOutcome (shot_ev ''2-pt layup'' ''miss'' (Some 3)) = Some ''miss''
   \<and> calc_rebs_year ([] @ [shot_ev ''2-pt layup'' ''miss'' (Some 3)]) = Inl IndexError
   \<and> calc_rebs [[] @ [shot_ev ''2-pt layup'' ''miss'' (Some 3)]] = Inl IndexError"
proof -
  have h: "ShotOutcome (shot_ev ''2-pt layup'' ''miss'' (Some 3)) = Some ''miss''"
    by (simp add: shot_ev_def)
  show ?thesis
    using h last_row_miss_raises [OF h, of "[]" "[]"]
    by (simp add: calc_rebs_year_def)
qed

text \<open>
  C5, evaluated at a failing input. In the table of a missed \<open>3-pt jump shot\<close> at 3 ft
  followed by an offensive rebound with 45 seconds left, \<open>calc_rebs\<close> credits the
  rebound to \<open>2-pt 0-5 ft\<close> alone, while \<open>calc_shots\<close> counts the shot under
  \<open>2-pt 0-5 ft\<close> and under \<open>3-pt <26 ft\<close>: the key chosen by the \<open>elif\<close> chain is
  not the set of categories in which the shot is counted.
\<close>

theorem rebound_key_differs_from_shot_keys:
  "reb_category (Some ''3-pt jump shot'') (Some 3) = Inr two_pt_zero_to_five_ft
   \<and> masks_of (shot_ev ''3-pt jump shot'' ''miss'' (Some 3))
       \<noteq> [two_pt_zero_to_five_ft]
   \<and> credited (calc_rebs_year [shot_ev ''3-pt jump shot'' ''miss'' (Some 3), reb_ev ''offensive'' 45])
        two_pt_zero_to_five_ft = Some 1
   \<and> credited (calc_rebs_year [shot_ev ''3-pt jump shot'' ''miss'' (Some 3), reb_ev ''offensive'' 45])
        three_pt_twenty_five_or_less_ft = Some 0
   \<and> attempts (calc_shots_year [shot_ev ''3-pt jump shot'' ''miss'' (Some 3), reb_ev ''offensive'' 45])
        three_pt_twenty_five_or_less_ft = 1"
  by (simp add: reb_category_def masks_of_def all_categories_def credited_def calc_rebs_year_def
      shot_ev_def reb_ev_def nan_le_def nan_gt_def str_contains_def off_reb_def
      attempts_def calc_shots_year_def tally_def)

text \<open>
  Where tag and distance agree, the key chosen by \<open>calc_rebs\<close> is the one category
  in which \<open>calc_shots\<close> counts the shot.
\<close>

lemma agreeing_shot_one_key:
  assumes "two_pt_shot r \<or> three_pt_shot r"
  shows "\<exists>c. reb_category (ShotType r) (ShotDist r) = Inr c \<and> masks_of r = [c]"
  using assms
  by (cases "ShotDist r"; cases "ShotType r")
     (auto simp: two_pt_shot_def three_pt_shot_def reb_category_def masks_of_def
        all_categories_def nan_le_def nan_gt_def str_contains_def)

subsection \<open>Rebounds against misses\<close>

lemma reb_category_mask:
  assumes "reb_category (ShotType r) (ShotDist r) = Inr c" and "tagged_shot r"
  shows "shot_mask c r"
  using assms
  by (cases "ShotDist r"; cases "ShotType r")
     (auto simp: reb_category_def tagged_shot_def nan_le_def nan_gt_def str_contains_def
           split: if_splits)

lemma off_reb_le: "off_reb nxt \<le> 1"
  by (simp add: off_reb_def)

lemma scan_rebs_bound:
  assumes "scan_rebs rows acc = Inr rebs"
    and "list_all (\<lambda>r. \<not> is_miss r \<or> tagged_shot r) rows"
  shows "rebs c \<le> acc c + length (filter (\<lambda>r. is_miss r \<and> shot_mask c r) rows)"
  using assms
proof (induction rows arbitrary: acc)
  case Nil
  then show ?case by simp
next
  case (Cons r rest)
  show ?case
  proof (cases "is_miss r")
    case False
    then have "scan_rebs rest acc = Inr rebs"
      using Cons.prems(1) by (simp add: is_miss_def)
    then have "rebs c \<le> acc c + length (filter (\<lambda>r. is_miss r \<and> shot_mask c r) rest)"
      using Cons.IH Cons.prems(2) by simp
    then show ?thesis using False by simp
  next
    case True
    then have t: "tagged_shot r" using Cons.prems(2) by simp
    from True Cons.prems(1) obtain nxt tl c' where
      rest: "rest = nxt # tl" and cat: "reb_category (ShotType r) (ShotDist r) = Inr c'"
      and rec: "scan_rebs rest (acc(c' := acc c' + off_reb nxt)) = Inr rebs"
      by (auto simp: is_miss_def split: list.splits sum.splits)
    have m: "shot_mask c' r" using cat t by (rule reb_category_mask)
    have "rebs c \<le> (acc(c' := acc c' + off_reb nxt)) c
                    + length (filter (\<lambda>r. is_miss r \<and> shot_mask c r) rest)"
      using Cons.IH [OF rec] Cons.prems(2) by simp
    then show ?thesis
      using True m off_reb_le [of nxt] by (cases "c = c'") auto
  qed
qed

lemma misses_le_attempts_minus_makes:
  "length (filter (\<lambda>r. is_miss r \<and> shot_mask c r) year)
     \<le> attempts (calc_shots_year year) c - makes (calc_shots_year year) c"
proof (induction year)
  case Nil
  show ?case by simp
next
  case (Cons r year)
  have le: "makes (calc_shots_year year) c \<le> attempts (calc_shots_year year) c"
    by (rule makes_le_attempts)
  have "is_miss r \<Longrightarrow> \<not> is_make r" by (simp add: is_miss_def is_make_def)
  then show ?case
    using Cons le by (auto simp: makes_def attempts_def calc_shots_year_def tally_Cons)
qed

text \<open>
  C7, as stated, fails at two tables. A missed \<open>3-pt\<close> shot without distance followed
  by an offensive rebound falls through every comparison of \<open>calc_rebs\<close> to the last
  branch and is credited to \<open>3-pt >30 ft\<close>, where \<open>calc_shots\<close> has no attempt. A
  missed shot at 20 ft whose tag names neither value is credited to \<open>3-pt <26 ft\<close>,
  where it is not counted either.
\<close>

theorem rebounds_exceed_misses_counterexample:
  "credited (calc_rebs_year [shot_ev ''3-pt jump shot'' ''miss'' None, reb_ev ''offensive'' 45])
      three_pt_thirty_plus_ft = Some 1
   \<and> attempts (calc_shots_year [shot_ev ''3-pt jump shot'' ''miss'' None, reb_ev ''offensive'' 45])
        three_pt_thirty_plus_ft
      - makes (calc_shots_year [shot_ev ''3-pt jump shot'' ''miss'' None, reb_ev ''offensive'' 45])
        three_pt_thirty_plus_ft = 0
   \<and> credited (calc_rebs_year [shot_ev ''jump shot'' ''miss'' (Some 20), reb_ev ''offensive'' 45])
        three_pt_twenty_five_or_less_ft = Some 1
   \<and> attempts (calc_shots_year [shot_ev ''jump shot'' ''miss'' (Some 20), reb_ev ''offensive'' 45])
        three_pt_twenty_five_or_less_ft
      - makes (calc_shots_year [shot_ev ''jump shot'' ''miss'' (Some 20), reb_ev ''offensive'' 45])
        three_pt_twenty_five_or_less_ft = 0"
  by (simp add: credited_def calc_rebs_year_def shot_ev_def reb_ev_def reb_category_def
      nan_le_def nan_gt_def off_reb_def attempts_def makes_def calc_shots_year_def tally_def
      str_contains_def)

text \<open>
  C7, amended. In every table and category the makes are at most the attempts. When
  \<open>calc_rebs\<close> returns a tally and every missed shot of the table has a distance and a
  tag containing \<open>2-pt\<close> or \<open>3-pt\<close>, the rebounds credited to a category are at most
  its attempts minus its makes.
\<close>

theorem tallies_bounded:
  "makes (calc_shots_year year) c \<le> attempts (calc_shots_year year) c
   \<and> (calc_rebs_year year = Inr rebs \<longrightarrow>
        list_all (\<lambda>r. \<not> is_miss r \<or> tagged_shot r) year \<longrightarrow>
        rebs c \<le> attempts (calc_shots_year year) c - makes (calc_shots_year year) c)"
proof (intro conjI impI)
  show "makes (calc_shots_year year) c \<le> attempts (calc_shots_year year) c"
    by (rule makes_le_attempts)
next
  assume "calc_rebs_year year = Inr rebs"
    and wf: "list_all (\<lambda>r. \<not> is_miss r \<or> tagged_shot r) year"
  then have "scan_rebs year (\<lambda>c. 0) = Inr rebs" by (simp add: calc_rebs_year_def)
  from scan_rebs_bound [OF this wf, of c]
  have "rebs c \<le> length (filter (\<lambda>r. is_miss r \<and> shot_mask c r) year)" by simp
  also have "\<dots> \<le> attempts (calc_shots_year year) c - makes (calc_shots_year year) c"
    by (rule misses_le_attempts_minus_makes)
  finally show "rebs c \<le> attempts (calc_shots_year year) c - makes (calc_shots_year year) c" .
qed

text \<open>
  A missed three from 28 ft and its offensive rebound with 45 seconds left: one
  rebound, one attempt and no make under \<open>3-pt 26-30 ft\<close>.
\<close>

theorem tallies_bounded_witness:
  "calc_rebs_year [shot_ev ''3-pt jump shot'' ''miss'' (Some 28), reb_ev ''offensive'' 45]
     = Inr ((\<lambda>c. 0)(three_pt_twenty_six_to_thirty_ft := 1))
   \<and> list_all (\<lambda>r. \<not> is_miss r \<or> tagged_shot r)
       [shot_ev ''3-pt jump shot'' ''miss'' (Some 28), reb_ev ''offensive'' 45]
   \<and> ((\<lambda>c. 0)(three_pt_twenty_six_to_thirty_ft := 1)) three_pt_twenty_six_to_thirty_ft
       \<le> attempts (calc_shots_year
            [shot_ev ''3-pt jump shot'' ''miss'' (Some 28), reb_ev ''offensive'' 45])
            three_pt_twenty_six_to_thirty_ft
         - makes (calc_shots_year
            [shot_ev ''3-pt jump shot'' ''miss'' (Some 28), reb_ev ''offensive'' 45])
            three_pt_twenty_six_to_thirty_ft
   \<and> attempts (calc_shots_year
        [shot_ev ''3-pt jump shot'' ''miss'' (Some 28), reb_ev ''offensive'' 45])
        three_pt_twenty_six_to_thirty_ft = 1"
proof -
  have r: "calc_rebs_year [shot_ev ''3-pt jump shot'' ''miss'' (Some 28), reb_ev ''offensive'' 45]
     = Inr ((\<lambda>c. 0)(three_pt_twenty_six_to_thirty_ft := 1))"
    by (simp add: calc_rebs_year_def shot_ev_def reb_ev_def reb_category_def nan_le_def
        off_reb_def)
  have w: "list_all (\<lambda>r. \<not> is_miss r \<or> tagged_shot r)
       [shot_ev ''3-pt jump shot'' ''miss'' (Some 28), reb_ev ''offensive'' 45]"
    by (simp add: is_miss_def tagged_shot_def shot_ev_def reb_ev_def str_contains_def)
  have a: "attempts (calc_shots_year
        [shot_ev ''3-pt jump shot'' ''miss'' (Some 28), reb_ev ''offensive'' 45])
        three_pt_twenty_six_to_thirty_ft = 1"
    by (simp add: attempts_def calc_shots_year_def tally_def shot_ev_def reb_ev_def
        nan_le_def nan_gt_def)
  show ?thesis
    using r w a
      tallies_bounded [of "[shot_ev ''3-pt jump shot'' ''miss'' (Some 28), reb_ev ''offensive'' 45]"
        three_pt_twenty_six_to_thirty_ft "(\<lambda>c. 0)(three_pt_twenty_six_to_thirty_ft := 1)"]
    by simp
qed

section \<open>Properties of the rounding\<close>

lemma ilog2_bounds:
  assumes "0 < a"
  shows "2 powi ilog2 a \<le> a \<and> a < 2 powi (ilog2 a + 1)"
proof -
  obtain n d where nd: "quotient_of a = (n, d)" by (cases "quotient_of a")
  then have d: "0 < d" by (rule quotient_of_denom_pos)
  have a: "a = of_int n / of_int d" using nd by (rule quotient_of_div)
  have n: "0 < n" using assms d a by (simp add: zero_less_divide_iff)
  define bn where "bn = bitlen n"
  define bd where "bd = bitlen d"
  have bn1: "1 \<le> bn" and bd1: "1 \<le> bd"
    using n d bitlen_eq_zero_iff [of n] bitlen_eq_zero_iff [of d]
      bitlen_nonneg [of n] bitlen_nonneg [of d]
    by (auto simp: bn_def bd_def)
  have "2 ^ nat (bn - 1) \<le> n" "n < 2 ^ nat bn" "2 ^ nat (bd - 1) \<le> d" "d < 2 ^ nat bd"
    using bitlen_bounds [OF n] bitlen_bounds [OF d] by (simp_all add: bn_def bd_def)
  then have rn: "(2::rat) ^ nat (bn - 1) \<le> of_int n" "(of_int n :: rat) < 2 ^ nat bn"
    and rd: "(2::rat) ^ nat (bd - 1) \<le> of_int d" "(of_int d :: rat) < 2 ^ nat bd"
    by (metis of_int_le_iff of_int_less_iff of_int_numeral of_int_power)+
  have pn: "(2::rat) powi (bn - 1) \<le> of_int n" "(of_int n :: rat) < 2 powi bn"
    using rn bn1 by (simp_all add: power_int_def)
  have pd: "(2::rat) powi (bd - 1) \<le> of_int d" "(of_int d :: rat) < 2 powi bd"
    using rd bd1 by (simp_all add: power_int_def)
  have dpos: "(0::rat) < of_int d" using d by simp
  have npos: "(0::rat) < of_int n" using n by simp
  have up: "a < 2 powi (bn - bd + 1)"
  proof -
    have "a < 2 powi bn / of_int d"
      unfolding a using pn(2) dpos by (simp add: divide_strict_right_mono)
    also have "\<dots> \<le> 2 powi bn / 2 powi (bd - 1)"
      using pd(1) dpos by (intro divide_left_mono) (auto simp: zero_less_power_int)
    also have "\<dots> = 2 powi (bn - bd + 1)"
      by (simp add: power_int_diff power_int_add)
    finally show ?thesis .
  qed
  have lo: "2 powi (bn - bd - 1) < a"
  proof -
    have "(2::rat) powi (bn - bd - 1) = 2 powi (bn - 1) / 2 powi bd"
      by (simp add: power_int_diff)
    also have "\<dots> \<le> of_int n / 2 powi bd"
      using pn(1) by (intro divide_right_mono) (auto simp: zero_le_power_int)
    also have "\<dots> < of_int n / of_int d"
      using pd(2) dpos npos by (intro divide_strict_left_mono) (auto simp: zero_less_power_int)
    finally show ?thesis by (simp add: a)
  qed
  have k: "ilog2 a = (if 2 powi (bn - bd) \<le> a then bn - bd else bn - bd - 1)"
    by (simp add: ilog2_def Let_def nd bn_def bd_def)
  show ?thesis
  proof (cases "2 powi (bn - bd) \<le> a")
    case True
    then show ?thesis using up k by simp
  next
    case False
    then show ?thesis using lo k by (simp add: not_le)
  qed
qed

lemma round_half_even_error: "\<bar>of_int (round_half_even x) - x\<bar> \<le> 1 / 2"
proof -
  have "of_int \<lfloor>x\<rfloor> \<le> x" "x < of_int \<lfloor>x\<rfloor> + 1" by linarith+
  then show ?thesis
    by (auto simp: round_half_even_def Let_def abs_le_iff not_less)
qed

lemma round_half_even_ge: "of_int n \<le> x \<Longrightarrow> n \<le> round_half_even x"
proof -
  assume "of_int n \<le> x"
  then have "n \<le> \<lfloor>x\<rfloor>" by (simp add: le_floor_iff)
  then show ?thesis by (auto simp: round_half_even_def Let_def)
qed

lemma round_half_even_of_int: "round_half_even (of_int n) = n"
  by (simp add: round_half_even_def)

lemma rnd53_pos:
  assumes "0 < q"
  shows "0 < rnd53 q"
proof -
  define u :: rat where "u = 2 powi (ilog2 q - 52)"
  have u: "0 < u" by (simp add: u_def zero_less_power_int)
  have "2 powi ilog2 q \<le> q" using ilog2_bounds [OF assms] by simp
  moreover have "(2::rat) powi ilog2 q = 2 ^ 52 * u"
    by (simp add: u_def power_int_diff)
  ultimately have "2 ^ 52 \<le> q / u" using u by (simp add: pos_le_divide_eq)
  then have "of_int 1 \<le> q / u" by simp
  then have "1 \<le> round_half_even (q / u)" by (rule round_half_even_ge)
  then have "(0::rat) < of_int (round_half_even (q / u))" by simp
  then show ?thesis
    using assms u by (simp add: rnd53_def Let_def u_def)
qed

lemma rnd53_nonneg: "0 \<le> q \<Longrightarrow> 0 \<le> rnd53 q"
  using rnd53_pos [of q] by (cases "q = 0") (simp_all add: rnd53_def)

text \<open>The rounding moves a number by at most half a unit in the last place.\<close>

lemma rnd53_error:
  assumes "q \<noteq> 0"
  shows "\<bar>rnd53 q - q\<bar> \<le> 2 powi (ilog2 \<bar>q\<bar> - 53)"
proof -
  define u :: rat where "u = 2 powi (ilog2 \<bar>q\<bar> - 52)"
  have u: "0 < u" by (simp add: u_def zero_less_power_int)
  have e1: "sgn q * (\<bar>q\<bar> / u) * u = q"
    using u by (simp add: mult_sgn_abs)
  have e2: "rnd53 q = sgn q * of_int (round_half_even (\<bar>q\<bar> / u)) * u"
    using assms by (simp add: rnd53_def Let_def u_def)
  have "rnd53 q - q
          = sgn q * of_int (round_half_even (\<bar>q\<bar> / u)) * u - sgn q * (\<bar>q\<bar> / u) * u"
    by (simp only: e1 e2)
  then have "rnd53 q - q = sgn q * (of_int (round_half_even (\<bar>q\<bar> / u)) - \<bar>q\<bar> / u) * u"
    by (simp only: right_diff_distrib left_diff_distrib)
  then have "\<bar>rnd53 q - q\<bar> = \<bar>of_int (round_half_even (\<bar>q\<bar> / u)) - \<bar>q\<bar> / u\<bar> * u"
    using assms u by (simp add: abs_mult abs_sgn_eq)
  also have "\<dots> \<le> (1 / 2) * u"
    using round_half_even_error [of "\<bar>q\<bar> / u"] u by (intro mult_right_mono) auto
  also have "\<dots> = 2 powi (ilog2 \<bar>q\<bar> - 53)"
    by (simp add: u_def power_int_diff)
  finally show ?thesis .
qed

text \<open>A whole number of at most 53 bits is a binary64 value.\<close>

lemma rnd53_of_int:
  assumes "\<bar>n\<bar> \<le> 2 ^ 53"
  shows "rnd53 (of_int n) = of_int n"
proof (cases "n = 0")
  case True
  then show ?thesis by (simp add: rnd53_def)
next
  case False
  define a :: rat where "a = \<bar>of_int n\<bar>"
  have a1: "1 \<le> a" using False by (simp add: a_def flip: of_int_abs)
  have a2: "a \<le> 2 ^ 53" using assms unfolding a_def
    by (metis of_int_abs of_int_le_iff of_int_numeral of_int_power)
  define e where "e = ilog2 a"
  have b: "2 powi e \<le> a" "a < 2 powi (e + 1)"
    using ilog2_bounds [of a] a1 by (simp_all add: e_def)
  have "(2::rat) powi e \<le> 2 powi 53" using b(1) a2 by simp
  then have e53: "e \<le> 53"
    using power_int_strict_increasing [of 53 e "2::rat"] by (cases "e \<le> 53") auto
  have "(2::rat) powi 0 < 2 powi (e + 1)" using b(2) a1 by simp
  then have e0: "0 \<le> e"
    using power_int_increasing [of "e + 1" 0 "2::rat"] by (cases "0 \<le> e") auto
  have "\<exists>m. a / 2 powi (e - 52) = of_int m"
  proof (cases "e \<le> 52")
    case True
    have "a / 2 powi (e - 52) = a * 2 powi (52 - e)"
      by (simp add: power_int_diff)
    also have "\<dots> = of_int (\<bar>n\<bar> * 2 ^ nat (52 - e))"
      using True by (simp add: a_def power_int_def)
    finally show ?thesis by blast
  next
    case False
    then have "e = 53" using e53 by simp
    then have "a = 2 ^ 53" using b(1) a2 by simp
    then have "a / 2 powi (e - 52) = of_int (2 ^ 52)" using \<open>e = 53\<close> by simp
    then show ?thesis by blast
  qed
  then obtain m where m: "a / 2 powi (e - 52) = of_int m" by blast
  have "rnd53 (of_int n) = sgn (of_int n) * (of_int m * 2 powi (e - 52))"
    using False m by (simp add: rnd53_def Let_def round_half_even_of_int flip: a_def e_def)
  also have "of_int m * 2 powi (e - 52) = a"
    using m by (simp add: field_simps)
  finally show ?thesis by (simp add: a_def mult_sgn_abs)
qed

text \<open>
  The binary64 values of 1/3 and 1/10, a whole number, and two ties above \<open>2^53\<close>.
\<close>

lemma rnd53_examples:
  "rnd53 (1 / 3) = 6004799503160661 / 2 ^ 54"
  "rnd53 (1 / 10) = 7205759403792794 / 2 ^ 56"
  "rnd53 190 = 190"
  "rnd53 (2 ^ 53 + 1) = 2 ^ 53"
  "rnd53 (2 ^ 53 + 3) = 2 ^ 53 + 4"
  by code_simp+

section \<open>Properties of calc\_ppp\<close>


lemma count_rows_filter: "count_rows P data = int (length (filter P data))"
  by (induction data) simp_all

lemma total_poss_spec: "total_poss data = spec_possessions data"
proof -
  have "poss_data data = filter spec_possession_ending data"
    by (auto simp: poss_data_def spec_possession_ending_def shot_def turnover_def
        ft_1_of_2_def ft_1_of_3_def intro!: filter_cong)
  moreover have "orbs_data data = filter spec_live_off_rebound data"
    by (auto simp: orbs_data_def spec_live_off_rebound_def orb_def not_end_of_q_def
        intro!: filter_cong)
  moreover have "ft_orbs_data data = filter spec_missed_ft_not_last data"
    by (auto simp: ft_orbs_data_def spec_missed_ft_not_last_def ft_miss_def ft_1_of_2_def
        ft_1_of_3_def ft_2_of_3_def intro!: filter_cong)
  ultimately show ?thesis
    by (simp add: total_poss_def total_orbs_def spec_possessions_def count_rows_filter)
qed

lemma pts_spec: "pts data = word_of_int (spec_points data)"
proof -
  have "sum_list (map AwayScore (filter (\<lambda>r. AwayPlay r = Some ''End of Game'') data))
        + sum_list (map HomeScore (filter (\<lambda>r. AwayPlay r = Some ''End of Game'') data))
        = (word_of_int (spec_points data) :: 64 word)"
    by (induction data) (simp_all add: algebra_simps)
  then show ?thesis by (simp add: pts_def col_sum_def Let_def)
qed

lemma sint_word_of_int64: "sint (word_of_int n :: 64 word) = int64 n"
  by (simp add: int64_def int_word_sint)

lemma int64_in_range: "- (2 ^ 63) \<le> n \<Longrightarrow> n < 2 ^ 63 \<Longrightarrow> int64 n = n"
  by (simp add: int64_def)

text \<open>
  With operands of at most 53 bits the conversions are exact, and the numpy quotient
  is the exact quotient rounded once.
\<close>

lemma np_true_divide_small:
  assumes "\<bar>a\<bar> \<le> 2 ^ 53" and "\<bar>b\<bar> \<le> 2 ^ 53" and "b \<noteq> 0"
  shows "np_true_divide a b = Fin (rnd53 (of_int a / of_int b))"
  using assms by (simp add: np_true_divide_def rnd53_of_int)




text \<open>
  C4, as stated, fails at the table that holds one end-of-game row with the scores 100
  and 90: it has 190 points and no possession, and \<open>calc_ppp\<close> returns the infinity of
  the numpy division instead of raising. On a table of one defensive rebound, without
  points and without possession, it returns NaN.
\<close>

theorem zero_possessions_counterexample:
  "total_poss [raw_end_of_game 100 90] = 0
   \<and> calc_ppp [raw_end_of_game 100 90] = Inr PInf
   \<and> total_poss [raw_rebound ''A'' ''defensive'' 30] = 0
   \<and> calc_ppp [raw_rebound ''A'' ''defensive'' 30] = Inr NaN"
  by (simp add: total_poss_def total_orbs_def poss_data_def orbs_data_def ft_orbs_data_def
      calc_ppp_def truediv_def np_true_divide_def pts_def col_sum_def raw_end_of_game_def
      raw_rebound_def blank_def shot_def turnover_def ft_1_of_2_def ft_1_of_3_def
      ft_2_of_3_def ft_miss_def orb_def not_end_of_q_def)

text \<open>
  C4, amended. \<open>calc_ppp\<close> raises no error on any table. The points being the final
  scores summed as an int64 scalar, and the possessions the count of the
  specification: on a table without possessions it returns a value that is not finite
  (an infinity with the sign of the points, NaN when there are no points either); on a
  table whose possessions are not zero it returns the binary64 quotient of the points
  by the possessions, that is, the quotient of the two numbers converted to binary64,
  rounded to binary64.
\<close>

theorem calc_ppp_result:
  "calc_ppp data =
     Inr (if spec_possessions data = 0
          then (if 0 < int64 (spec_points data) then PInf
                else if int64 (spec_points data) < 0 then NInf else NaN)
          else Fin (rnd53 (rnd53 (of_int (int64 (spec_points data)))
                           / rnd53 (of_int (spec_possessions data)))))"
proof -
  have p: "sint (pts data) = int64 (spec_points data)"
    by (simp add: pts_spec sint_word_of_int64)
  show ?thesis
    by (simp add: calc_ppp_def truediv_def np_true_divide_def p total_poss_spec)
qed

text \<open>
  A lone end-of-game row gives plus infinity. Three shots and the end of a game won 1
  to 0 give 1 point on 3 possessions: the binary64 value of 1/3, which is not 1/3.
\<close>

theorem calc_ppp_result_witness:
  "calc_ppp [raw_end_of_game 100 90] = Inr PInf
   \<and> calc_ppp [raw_shot ''A'', raw_shot ''B'', raw_shot ''C'', raw_end_of_game 1 0]
       = Inr (Fin (6004799503160661 / 2 ^ 54))"
proof -
  have z: "spec_possessions [raw_end_of_game 100 90] = 0"
    "int64 (spec_points [raw_end_of_game 100 90]) = 190"
    by (simp_all add: spec_possessions_def spec_possession_ending_def
        spec_live_off_rebound_def spec_missed_ft_not_last_def int64_def
        raw_end_of_game_def blank_def)
  have n: "spec_possessions [raw_shot ''A'', raw_shot ''B'', raw_shot ''C'', raw_end_of_game 1 0] = 3"
    "int64 (spec_points [raw_shot ''A'', raw_shot ''B'', raw_shot ''C'', raw_end_of_game 1 0]) = 1"
    by (simp_all add: spec_possessions_def spec_possession_ending_def
        spec_live_off_rebound_def spec_missed_ft_not_last_def int64_def
        raw_shot_def raw_end_of_game_def blank_def)
  have r: "rnd53 (rnd53 (of_int 1) / rnd53 (of_int 3)) = 6004799503160661 / 2 ^ 54"
    by code_simp
  show ?thesis
    using calc_ppp_result [of "[raw_end_of_game 100 90]"]
      calc_ppp_result [of "[raw_shot ''A'', raw_shot ''B'', raw_shot ''C'', raw_end_of_game 1 0]"]
    by (simp only: z n r) simp
qed

section \<open>Properties of the expected points\<close>



section \<open>Properties of clean\_data\<close>

lemma str_in_sublist: "str_in pat s = sublist pat s"
  by (induction s) (auto simp: sublist_Cons_right)

lemma dot_is_metachar: "List.member metachars (CHR ''.'')"
  by (simp add: metachars_def)

lemma match_here_literal: "literal_pattern pat \<Longrightarrow> match_here pat s = prefix pat s"
proof (induction pat s rule: match_here.induct)
  case (1 s)
  show ?case by simp
next
  case (2 p ps)
  show ?case by simp
next
  case (3 p ps c cs)
  from "3.prems" have "p \<noteq> CHR ''.''" and "literal_pattern ps"
    using dot_is_metachar by (auto simp: literal_pattern_def)
  then show ?case using "3.IH" by auto
qed

lemma dot_search_literal: "literal_pattern pat \<Longrightarrow> dot_search pat s = sublist pat s"
proof (induction s)
  case Nil
  then show ?case by (cases pat) simp_all
next
  case (Cons c cs)
  then show ?case by (simp add: match_here_literal sublist_Cons_right)
qed

lemma literal_is_dot_pattern: "literal_pattern pat \<Longrightarrow> dot_pattern pat"
  by (induction pat) (simp_all add: literal_pattern_def dot_pattern_def)

lemma re_search_literal: "literal_pattern pat \<Longrightarrow> re_search engine pat s = sublist pat s"
  by (simp add: re_search_def literal_is_dot_pattern dot_search_literal)

lemma populated_fields: "populated r = fields_populated r"
  by (simp add: populated_def fields_populated_def)

text \<open>
  C9, as stated, fails at the token \<open>L.L\<close>. Of a shot by a player of LAL, a rebound
  by a player of LAL, a shot by a player of BOS and a turnover row, \<open>clean_data\<close>
  keeps the first two, whose identities match the regular expression (the dot stands
  for the \<open>A\<close>); no identity contains \<open>L.L\<close> as a substring, so the rows the claim
  describes are none.
\<close>

theorem clean_data_regex_counterexample:
  "clean_data str_in
     [raw_shot ''L. James LAL'', raw_rebound ''A. Davis LAL'' ''defensive'' 30,
      raw_shot ''J. Tatum BOS'', raw_turnover] ''L.L''
     = [row.truncate (raw_shot ''L. James LAL''),
        row.truncate (raw_rebound ''A. Davis LAL'' ''defensive'' 30)]
   \<and> filter (\<lambda>r. \<not> fields_populated r < 2
                 \<and> (''L.L'' = ''ALL''
                    \<or> (\<exists>s. Shooter r = Some s \<and> sublist ''L.L'' s)
                    \<or> (\<exists>s. Rebounder r = Some s \<and> sublist ''L.L'' s)))
       (map row.truncate
          [raw_shot ''L. James LAL'', raw_rebound ''A. Davis LAL'' ''defensive'' 30,
           raw_shot ''J. Tatum BOS'', raw_turnover])
     = []"
proof -
  have c: "clean_data str_in
     [raw_shot ''L. James LAL'', raw_rebound ''A. Davis LAL'' ''defensive'' 30,
      raw_shot ''J. Tatum BOS'', raw_turnover] ''L.L''
     = [row.truncate (raw_shot ''L. James LAL''),
        row.truncate (raw_rebound ''A. Davis LAL'' ''defensive'' 30)]"
    by (simp add: clean_data_def populated_def str_contains_def re_search_def dot_pattern_def
        metachars_def raw_shot_def raw_rebound_def raw_turnover_def blank_def row.truncate_def)
  have s: "filter (\<lambda>r. \<not> fields_populated r < 2
                 \<and> (''L.L'' = ''ALL''
                    \<or> (\<exists>s. Shooter r = Some s \<and> sublist ''L.L'' s)
                    \<or> (\<exists>s. Rebounder r = Some s \<and> sublist ''L.L'' s)))
       (map row.truncate
          [raw_shot ''L. James LAL'', raw_rebound ''A. Davis LAL'' ''defensive'' 30,
           raw_shot ''J. Tatum BOS'', raw_turnover])
     = []"
    by (simp add: fields_populated_def raw_shot_def raw_rebound_def raw_turnover_def blank_def
        row.truncate_def flip: str_in_sublist)
  show ?thesis using c s by simp
qed

text \<open>
  C9, amended. The result of \<open>clean_data\<close> is the input reduced to the seven columns,
  in table order, without the rows that have fewer than two of the seven fields
  populated; when a team other than \<open>'ALL'\<close> is given and its token holds no
  regular-expression operator, the rows kept are, of these, exactly those in which the
  shooter or the rebounder is present and contains the token as a substring.
\<close>

theorem clean_data_rows:
  assumes "literal_pattern team"
  shows "clean_data engine data team =
     filter (\<lambda>r. \<not> fields_populated r < 2
                 \<and> (team = ''ALL''
                    \<or> (\<exists>s. Shooter r = Some s \<and> sublist team s)
                    \<or> (\<exists>s. Rebounder r = Some s \<and> sublist team s)))
       (map row.truncate data)"
proof -
  have c: "str_contains (re_search engine) team cell = (\<exists>s. cell = Some s \<and> sublist team s)"
    for cell
    using assms by (cases cell) (simp_all add: str_contains_def re_search_literal)
  show ?thesis
    by (auto simp: clean_data_def Let_def not_less c populated_fields intro!: filter_cong)
qed

text \<open>
  With the token \<open>LAL\<close>, the first two of the four rows are kept; with \<open>ALL\<close>, the
  first three. The engine argument is not consulted for these tokens.
\<close>

theorem clean_data_rows_witness:
  "literal_pattern ''LAL''
   \<and> clean_data str_in
        [raw_shot ''L. James LAL'', raw_rebound ''A. Davis LAL'' ''defensive'' 30,
         raw_shot ''J. Tatum BOS'', raw_turnover] ''LAL''
     = filter (\<lambda>r. \<not> fields_populated r < 2
                 \<and> (''LAL'' = ''ALL''
                    \<or> (\<exists>s. Shooter r = Some s \<and> sublist ''LAL'' s)
                    \<or> (\<exists>s. Rebounder r = Some s \<and> sublist ''LAL'' s)))
         (map row.truncate
            [raw_shot ''L. James LAL'', raw_rebound ''A. Davis LAL'' ''defensive'' 30,
             raw_shot ''J. Tatum BOS'', raw_turnover])
   \<and> clean_data str_in
        [raw_shot ''L. James LAL'', raw_rebound ''A. Davis LAL'' ''defensive'' 30,
         raw_shot ''J. Tatum BOS'', raw_turnover] ''LAL''
     = [row.truncate (raw_shot ''L. James LAL''),
        row.truncate (raw_rebound ''A. Davis LAL'' ''defensive'' 30)]
   \<and> clean_data str_in
        [raw_shot ''L. James LAL'', raw_rebound ''A. Davis LAL'' ''defensive'' 30,
         raw_shot ''J. Tatum BOS'', raw_turnover] ''ALL''
     = [row.truncate (raw_shot ''L. James LAL''),
        row.truncate (raw_rebound ''A. Davis LAL'' ''defensive'' 30),
        row.truncate (raw_shot ''J. Tatum BOS'')]"
proof -
  have h: "literal_pattern ''LAL''"
    by (simp add: literal_pattern_def metachars_def)
  have v: "clean_data str_in
        [raw_shot ''L. James LAL'', raw_rebound ''A. Davis LAL'' ''defensive'' 30,
         raw_shot ''J. Tatum BOS'', raw_turnover] ''LAL''
     = [row.truncate (raw_shot ''L. James LAL''),
        row.truncate (raw_rebound ''A. Davis LAL'' ''defensive'' 30)]"
    by (simp add: clean_data_def populated_def str_contains_def re_search_def dot_pattern_def
        metachars_def raw_shot_def raw_rebound_def raw_turnover_def blank_def row.truncate_def)
  have a: "clean_data str_in
        [raw_shot ''L. James LAL'', raw_rebound ''A. Davis LAL'' ''defensive'' 30,
         raw_shot ''J. Tatum BOS'', raw_turnover] ''ALL''
     = [row.truncate (raw_shot ''L. James LAL''),
        row.truncate (raw_rebound ''A. Davis LAL'' ''defensive'' 30),
        row.truncate (raw_shot ''J. Tatum BOS'')]"
    by (simp add: clean_data_def populated_def str_contains_def raw_shot_def raw_rebound_def
        raw_turnover_def blank_def row.truncate_def)
  show ?thesis
    using h v a
      clean_data_rows [of "''LAL''" str_in "[raw_shot ''L. James LAL'',
         raw_rebound ''A. Davis LAL'' ''defensive'' 30, raw_shot ''J. Tatum BOS'', raw_turnover]"]
    by simp
qed

end
